theory Spec2Isabelle
  imports Complex_Main
begin

section \<open>Status summaries and the GitHub configuration slice\<close>

text \<open>
  \<^verbatim>\<open>GitHubStatusSummary = Readonly<Record<string, unknown>>\<close>: a JavaScript object, kept
  as the list of its fields. A value of this type is an object, hence truthy: the test
  \<^verbatim>\<open>if (cachedSummary)\<close> of \<^verbatim>\<open>getSummary\<close> separates exactly "the cache gave a summary"
  from "the cache gave undefined".
\<close>

datatype json = JNull | JBool bool | JNum int | JStr string | JArr "json list"
  | JObj "(string \<times> json) list"

type_synonym GitHubStatusSummary = "(string \<times> json) list"

text \<open>The validated instance of class \<^verbatim>\<open>GitHubConfig\<close> (github.config.ts), field by field.\<close>

record GitHubConfig =
  githubStatusUrl :: string
  githubStatusCacheTtlMs :: int
  githubStatusProviderType :: string
  githubStatusTimeoutMs :: int

section \<open>The collaborators of the status provider\<close>

subsection \<open>The cache\<close>

text \<open>
  Modelled from the spec: the cache collaborator (package cache-manager, no file of the
  repository). Sections 3 and 6 of the specification give its contract: an entry is
  \<^verbatim>\<open>(key, value, expiresAt)\<close>, \<^verbatim>\<open>get(key) -> value | absent\<close>,
  \<^verbatim>\<open>set(key, value, ttlSeconds) -> void\<close>, a write replaces the entry of its key, and the
  collaborator enforces the TTL: an entry whose TTL has elapsed is absent. Times are
  milliseconds on the process clock.
\<close>

record cache_entry =
  entry_value :: GitHubStatusSummary
  expiresAt :: int

type_synonym cache_store = "string \<rightharpoonup> cache_entry"

definition cacheManager_get :: "cache_store \<Rightarrow> string \<Rightarrow> int \<Rightarrow> GitHubStatusSummary option" where
  "cacheManager_get store key now =
     (case store key of
        None \<Rightarrow> None
      | Some e \<Rightarrow> if now < expiresAt e then Some (entry_value e) else None)"

definition cacheManager_set ::
  "cache_store \<Rightarrow> string \<Rightarrow> GitHubStatusSummary \<Rightarrow> int \<Rightarrow> int \<Rightarrow> cache_store" where
  "cacheManager_set store key v ttlSeconds now =
     store(key \<mapsto> \<lparr>entry_value = v, expiresAt = now + ttlSeconds * 1000\<rparr>)"

subsection \<open>The HTTP client\<close>

text \<open>
  What the network does with one GET: it answers with a status code and a body after some
  milliseconds, or the request fails on the network.
\<close>

datatype upstream_reply =
    Responds nat GitHubStatusSummary int
  | NetworkFailure string

type_synonym network = "string \<Rightarrow> upstream_reply"

text \<open>
  The rejections of the HTTP client are the specification's \<^verbatim>\<open>FetchFailed\<close> kind
  ("upstream HTTP call failed, timed out, or returned a non-2xx status").
\<close>

datatype fetch_failure = NonSuccessStatus nat | NetworkError string | TimeoutExceeded

datatype error =
    FetchFailed fetch_failure
  | ConfigInvalid string
  | UnknownProviderKind string

record http_response =
  response_status :: nat
  response_data :: GitHubStatusSummary

text \<open>
  Modelled from the spec: \<^verbatim>\<open>firstValueFrom(http.get(url).pipe(timeout(ms)))\<close> is library
  code (@nestjs/axios, rxjs). Section 6: "any non-2xx status or timeout is a failure";
  section 4.1 step 5 lists the failures as non-2xx response, network error, timeout
  exceeded. The result carries the time the answer took, which is when the caller resumes.
\<close>

definition http_get_timeout :: "network \<Rightarrow> string \<Rightarrow> int \<Rightarrow> error + (http_response \<times> int)" where
  "http_get_timeout net url timeoutMs =
     (case net url of
        NetworkFailure reason \<Rightarrow> Inl (FetchFailed (NetworkError reason))
      | Responds code payload latency \<Rightarrow>
          if timeoutMs < latency then Inl (FetchFailed TimeoutExceeded)
          else if code < 200 \<or> 300 \<le> code then Inl (FetchFailed (NonSuccessStatus code))
          else Inr (\<lparr>response_status = code, response_data = payload\<rparr>, latency))"

section \<open>DefaultGitHubStatusProvider.getSummary\<close>

text \<open>
  \<^verbatim>\<open>Math.ceil(n / 1000)\<close> on an integer \<^verbatim>\<open>n\<close> (the validated TTL is an integer; the
  double division is exact enough for every safe integer).
\<close>

definition Math_ceil_div1000 :: "int \<Rightarrow> int" where
  "Math_ceil_div1000 n = - ((- n) div 1000)"

text \<open>
  The state the provider works on: the shared cache, and the log of the GET requests that
  were issued (the URL of each, oldest first).
\<close>

record world =
  cache :: cache_store
  requests :: "string list"

text \<open>
  \<^verbatim>\<open>getSummary()\<close> called at time \<open>now\<close>. The cache is read at \<open>now\<close>; after a miss the GET is
  issued, and the entry is written when the answer has arrived.
\<close>

definition getSummary ::
  "GitHubConfig \<Rightarrow> network \<Rightarrow> int \<Rightarrow> world \<Rightarrow> (error + GitHubStatusSummary) \<times> world" where
  "getSummary appConfig net now w =
     (case cacheManager_get (cache w) ''github-status:summary'' now of
        Some cachedSummary \<Rightarrow> (Inr cachedSummary, w)
      | None \<Rightarrow>
          (let w1 = w\<lparr>requests := requests w @ [githubStatusUrl appConfig]\<rparr> in
           case http_get_timeout net (githubStatusUrl appConfig) (githubStatusTimeoutMs appConfig) of
             Inl e \<Rightarrow> (Inl e, w1)
           | Inr (response, elapsed) \<Rightarrow>
               (let cacheTtlSeconds = Math_ceil_div1000 (githubStatusCacheTtlMs appConfig) in
                (Inr (response_data response),
                 w1\<lparr>cache := cacheManager_set (cache w1) ''github-status:summary''
                        (response_data response) cacheTtlSeconds (now + elapsed)\<rparr>))))"

section \<open>Environment validation (app.config.ts, github.config.ts)\<close>

text \<open>\<^verbatim>\<open>process.env\<close>: a variable is absent (\<^verbatim>\<open>undefined\<close>) or holds a string.\<close>

type_synonym env = "string \<rightharpoonup> string"

subsection \<open>What the platform supplies\<close>

text \<open>
  A JavaScript number, as far as the validators tell numbers apart: a finite value (every
  finite double is a rational), an infinity, or \<open>NaN\<close>.
\<close>

datatype js_number = Finite rat | PlusInfinity | MinusInfinity | NaN

text \<open>
  Two functions the schema relies on are no code of the repository: the coercion
  \<^verbatim>\<open>Number(value)\<close> of the JavaScript runtime, and the check that class-validator runs for
  \<^verbatim>\<open>@IsUrl({ require_tld: true, require_protocol: true })\<close> (validator.js, whose version
  the repository's sources do not fix). The model takes both as parameters: \<open>Number p\<close> is
  what the runtime makes of a text, \<open>isURL p\<close> is the verdict of the validator with these
  options. What is proved below for every \<open>p\<close> holds whatever the two functions are.
\<close>

record platform =
  Number :: "string \<Rightarrow> js_number"
  isURL :: "string \<Rightarrow> bool"

text \<open>\<^verbatim>\<open>toNumber()\<close> of app.config.ts: the transformation \<^verbatim>\<open>({ value }) => Number(value)\<close>.\<close>

definition toNumber :: "platform \<Rightarrow> string \<Rightarrow> js_number" where
  "toNumber p v = Number p v"

subsection \<open>The schema \<^verbatim>\<open>GitHubConfig\<close>\<close>

text \<open>The four environment variables named by the \<^verbatim>\<open>@Expose\<close> decorators.\<close>

definition GITHUB_STATUS_URL :: string where
  "GITHUB_STATUS_URL = ''GITHUB_STATUS_URL''"

definition GITHUB_STATUS_CACHE_TTL_MS :: string where
  "GITHUB_STATUS_CACHE_TTL_MS = ''GITHUB_STATUS_CACHE_TTL_MS''"

definition GITHUB_STATUS_PROVIDER_TYPE :: string where
  "GITHUB_STATUS_PROVIDER_TYPE = ''GITHUB_STATUS_PROVIDER_TYPE''"

definition GITHUB_STATUS_TIMEOUT_MS :: string where
  "GITHUB_STATUS_TIMEOUT_MS = ''GITHUB_STATUS_TIMEOUT_MS''"

text \<open>The field initialiser of \<^verbatim>\<open>githubStatusUrl\<close>.\<close>

definition default_githubStatusUrl :: string where
  "default_githubStatusUrl = ''https://www.githubstatus.com/api/v2/summary.json''"

text \<open>
  The instance that \<^verbatim>\<open>plainToInstance\<close> builds, before validation: the numeric fields hold
  whatever \<^verbatim>\<open>Number\<close> made of the text.
\<close>

record GitHubConfig_instance =
  inst_githubStatusUrl :: string
  inst_githubStatusCacheTtlMs :: js_number
  inst_githubStatusProviderType :: string
  inst_githubStatusTimeoutMs :: js_number

text \<open>
  \<^verbatim>\<open>plainToInstance(GitHubConfig, source, {excludeExtraneousValues: true,
  exposeDefaultValues: true, ...})\<close>: only the exposed variables are read; a variable that
  is absent leaves the field initialiser in place (and no transformation runs), a variable
  that is present replaces it, through \<^verbatim>\<open>toNumber\<close> where the field has that transformation.
\<close>

definition plainToInstance_GitHubConfig :: "platform \<Rightarrow> env \<Rightarrow> GitHubConfig_instance" where
  "plainToInstance_GitHubConfig p source =
     \<lparr>inst_githubStatusUrl =
        (case source GITHUB_STATUS_URL of None \<Rightarrow> default_githubStatusUrl | Some v \<Rightarrow> v),
      inst_githubStatusCacheTtlMs =
        (case source GITHUB_STATUS_CACHE_TTL_MS of None \<Rightarrow> Finite 60000 | Some v \<Rightarrow> toNumber p v),
      inst_githubStatusProviderType =
        (case source GITHUB_STATUS_PROVIDER_TYPE of None \<Rightarrow> ''mock'' | Some v \<Rightarrow> v),
      inst_githubStatusTimeoutMs =
        (case source GITHUB_STATUS_TIMEOUT_MS of None \<Rightarrow> Finite 2000 | Some v \<Rightarrow> toNumber p v)\<rparr>"

text \<open>A \<^verbatim>\<open>ValidationError\<close> of class-validator: the property and the messages of its failed
  constraints.\<close>

record ValidationError =
  property :: string
  constraints :: "string list option"

text \<open>
  \<^verbatim>\<open>@IsInt\<close> is \<^verbatim>\<open>Number.isInteger(value)\<close>, \<^verbatim>\<open>@Min(bound)\<close> is \<^verbatim>\<open>value >= bound\<close>, \<^verbatim>\<open>@IsIn\<close> is
  membership in the given array.
\<close>

definition IsInt :: "js_number \<Rightarrow> bool" where
  "IsInt n = (case n of Finite q \<Rightarrow> of_int \<lfloor>q\<rfloor> = q | _ \<Rightarrow> False)"

definition Min_validator :: "int \<Rightarrow> js_number \<Rightarrow> bool" where
  "Min_validator bound n =
     (case n of Finite q \<Rightarrow> of_int bound \<le> q | PlusInfinity \<Rightarrow> True | _ \<Rightarrow> False)"

definition IsIn :: "string list \<Rightarrow> string \<Rightarrow> bool" where
  "IsIn allowed v = (v \<in> set allowed)"

text \<open>One property's error, if any of its constraints failed: the messages of the failed
  ones.\<close>

definition property_errors :: "string \<Rightarrow> (bool \<times> string) list \<Rightarrow> ValidationError list" where
  "property_errors name checks =
     (let failed = map snd (filter (\<lambda>(ok, _). \<not> ok) checks)
      in if failed = [] then [] else [\<lparr>property = name, constraints = Some failed\<rparr>])"

text \<open>
  \<^verbatim>\<open>validateSync(instance, ...)\<close> on the decorators of \<^verbatim>\<open>GitHubConfig\<close>, property by property
  in the order of the class.
\<close>

definition validateSync_GitHubConfig :: "platform \<Rightarrow> GitHubConfig_instance \<Rightarrow> ValidationError list" where
  "validateSync_GitHubConfig p i =
     property_errors ''githubStatusUrl''
       [(isURL p (inst_githubStatusUrl i), ''GITHUB_STATUS_URL must be a valid absolute URL'')]
     @ property_errors ''githubStatusCacheTtlMs''
       [(Min_validator 0 (inst_githubStatusCacheTtlMs i), ''GITHUB_STATUS_CACHE_TTL_MS must be >= 0''),
        (IsInt (inst_githubStatusCacheTtlMs i), ''GITHUB_STATUS_CACHE_TTL_MS must be an integer'')]
     @ property_errors ''githubStatusProviderType''
       [(IsIn [''mock'', ''default''] (inst_githubStatusProviderType i),
         ''GITHUB_STATUS_PROVIDER_TYPE must be one of: mock, default'')]
     @ property_errors ''githubStatusTimeoutMs''
       [(Min_validator 0 (inst_githubStatusTimeoutMs i), ''GITHUB_STATUS_TIMEOUT_MS must be >= 0''),
        (IsInt (inst_githubStatusTimeoutMs i), ''GITHUB_STATUS_TIMEOUT_MS must be an integer'')]"

subsection \<open>\<^verbatim>\<open>formatValidationErrors\<close> and \<^verbatim>\<open>validateConfigSlice\<close>\<close>

text \<open>\<^verbatim>\<open>Array.prototype.join\<close>.\<close>

fun join :: "string \<Rightarrow> string list \<Rightarrow> string" where
  "join sep [] = []"
| "join sep [x] = x"
| "join sep (x # y # ys) = x @ sep @ join sep (y # ys)"

definition formatValidationErrors :: "ValidationError list \<Rightarrow> string" where
  "formatValidationErrors errors =
     join ''; ''
       (map (\<lambda>error.
          (let constraints_text =
                 (case constraints error of Some cs \<Rightarrow> join '', '' cs | None \<Rightarrow> ''invalid value'')
           in property error @ '': '' @ constraints_text)) errors)"

text \<open>A validated number is an integer; this reads it.\<close>

definition integer_value :: "js_number \<Rightarrow> int" where
  "integer_value n = (case n of Finite q \<Rightarrow> \<lfloor>q\<rfloor> | _ \<Rightarrow> 0)"

definition validated_GitHubConfig :: "GitHubConfig_instance \<Rightarrow> GitHubConfig" where
  "validated_GitHubConfig i =
     \<lparr>githubStatusUrl = inst_githubStatusUrl i,
      githubStatusCacheTtlMs = integer_value (inst_githubStatusCacheTtlMs i),
      githubStatusProviderType = inst_githubStatusProviderType i,
      githubStatusTimeoutMs = integer_value (inst_githubStatusTimeoutMs i)\<rparr>"

text \<open>
  \<^verbatim>\<open>validateConfigSlice(GitHubConfig, source)\<close>. The \<^verbatim>\<open>Error\<close> it throws is the
  specification's \<^verbatim>\<open>ConfigInvalid\<close>, with the message of the source.
\<close>

definition validateConfigSlice_GitHubConfig :: "platform \<Rightarrow> env \<Rightarrow> error + GitHubConfig" where
  "validateConfigSlice_GitHubConfig p source =
     (let instance = plainToInstance_GitHubConfig p source;
          errors = validateSync_GitHubConfig p instance
      in if length errors > 0
         then Inl (ConfigInvalid (''Invalid environment variables: '' @ formatValidationErrors errors))
         else Inr (validated_GitHubConfig instance))"

subsection \<open>A reference platform\<close>

text \<open>
  One instance of the two parameters, for running the model on concrete environments.
  \<open>Number_reference\<close> reads the numeric texts of JavaScript (white space around the text
  dropped, empty text 0, signed decimal literals with fraction and exponent, \<^verbatim>\<open>Infinity\<close>,
  unsigned binary, octal and hexadecimal literals) and gives the exact value of the text;
  the runtime rounds that value to a double, which this instance does not do.
\<close>

definition is_space :: "char \<Rightarrow> bool" where
  "is_space c = (c \<in> set [CHR '' '', CHR 0x09, CHR 0x0A, CHR 0x0B, CHR 0x0C, CHR 0x0D])"

definition is_digit :: "char \<Rightarrow> bool" where
  "is_digit c = (c \<in> set ''0123456789'')"

definition is_alpha :: "char \<Rightarrow> bool" where
  "is_alpha c = (c \<in> set ''abcdefghijklmnopqrstuvwxyzABCDEFGHIJKLMNOPQRSTUVWXYZ'')"

definition trim :: "string \<Rightarrow> string" where
  "trim s = rev (dropWhile is_space (rev (dropWhile is_space s)))"

definition digit_in_radix :: "nat \<Rightarrow> char \<Rightarrow> nat option" where
  "digit_in_radix radix c =
     (let v = (if is_digit c then Some (of_char c - 48)
               else if c \<in> set ''abcdef'' then Some (of_char c - 87)
               else if c \<in> set ''ABCDEF'' then Some (of_char c - 55)
               else None)
      in case v of Some d \<Rightarrow> if d < radix then Some d else None | None \<Rightarrow> None)"

definition digits_in_radix :: "nat \<Rightarrow> string \<Rightarrow> int option" where
  "digits_in_radix radix ds =
     (if ds \<noteq> [] \<and> list_all (\<lambda>c. digit_in_radix radix c \<noteq> None) ds
      then Some (foldl (\<lambda>acc c. acc * int radix
                          + (case digit_in_radix radix c of Some d \<Rightarrow> int d | None \<Rightarrow> 0)) 0 ds)
      else None)"

definition digits_value :: "string \<Rightarrow> int" where
  "digits_value ds = (case digits_in_radix 10 ds of Some n \<Rightarrow> n | None \<Rightarrow> 0)"

definition power_of_ten :: "int \<Rightarrow> rat" where
  "power_of_ten k = (if 0 \<le> k then 10 ^ nat k else 1 / 10 ^ nat (- k))"

text \<open>The exponent part of a decimal literal: nothing, or \<^verbatim>\<open>e\<close> with an optionally signed
  run of digits.\<close>

definition exponent_part :: "string \<Rightarrow> int option" where
  "exponent_part s =
     (case s of
        [] \<Rightarrow> Some 0
      | c # rest \<Rightarrow>
          if c = CHR ''e'' \<or> c = CHR ''E''
          then (case rest of
                  [] \<Rightarrow> None
                | d # ds \<Rightarrow>
                    if d = CHR ''-'' then map_option uminus (digits_in_radix 10 ds)
                    else if d = CHR ''+'' then digits_in_radix 10 ds
                    else digits_in_radix 10 rest)
          else None)"

definition unsigned_decimal :: "string \<Rightarrow> js_number" where
  "unsigned_decimal s =
     (if s = ''Infinity'' then PlusInfinity
      else (let int_digits = takeWhile is_digit s;
                after_int = dropWhile is_digit s;
                has_dot = (after_int \<noteq> [] \<and> hd after_int = CHR ''.'');
                frac_digits = (if has_dot then takeWhile is_digit (tl after_int) else []);
                after_frac = (if has_dot then dropWhile is_digit (tl after_int) else after_int)
            in if int_digits = [] \<and> frac_digits = [] then NaN
               else case exponent_part after_frac of
                      None \<Rightarrow> NaN
                    | Some e \<Rightarrow>
                        Finite (of_int (digits_value (int_digits @ frac_digits))
                                 * power_of_ten (e - int (length frac_digits)))))"

definition negated :: "js_number \<Rightarrow> js_number" where
  "negated n =
     (case n of Finite q \<Rightarrow> Finite (- q) | PlusInfinity \<Rightarrow> MinusInfinity
      | MinusInfinity \<Rightarrow> PlusInfinity | NaN \<Rightarrow> NaN)"

definition Number_reference :: "string \<Rightarrow> js_number" where
  "Number_reference v =
     (let t = trim v;
          radix_literal = (\<lambda>radix ds. case digits_in_radix radix ds of
                                         Some n \<Rightarrow> Finite (of_int n) | None \<Rightarrow> NaN)
      in if t = [] then Finite 0
         else if take 2 t \<in> set [''0x'', ''0X''] then radix_literal 16 (drop 2 t)
         else if take 2 t \<in> set [''0o'', ''0O''] then radix_literal 8 (drop 2 t)
         else if take 2 t \<in> set [''0b'', ''0B''] then radix_literal 2 (drop 2 t)
         else if hd t = CHR ''-'' then negated (unsigned_decimal (tl t))
         else if hd t = CHR ''+'' then unsigned_decimal (tl t)
         else unsigned_decimal t)"

text \<open>\<^verbatim>\<open>String.prototype.split\<close> at every occurrence of one character.\<close>

fun split_char :: "char \<Rightarrow> string \<Rightarrow> string list" where
  "split_char c [] = [[]]"
| "split_char c (x # xs) =
     (if x = c then [] # split_char c xs
      else (case split_char c xs of p # ps \<Rightarrow> (x # p) # ps | [] \<Rightarrow> [[x]]))"

text \<open>The text before the first \<^verbatim>\<open>://\<close> and the text after it, when there is one.\<close>

fun split_protocol :: "string \<Rightarrow> (string \<times> string) option" where
  "split_protocol [] = None"
| "split_protocol (x # xs) =
     (if take 3 (x # xs) = ''://'' then Some ([], drop 3 (x # xs))
      else map_option (\<lambda>(p, r). (x # p, r)) (split_protocol xs))"

definition toLowerCase :: "string \<Rightarrow> string" where
  "toLowerCase s =
     map (\<lambda>c. if c \<in> set ''ABCDEFGHIJKLMNOPQRSTUVWXYZ'' then char_of (of_char c + (32::nat)) else c) s"

text \<open>
  \<open>isURL_reference\<close> is a recogniser for the URLs of the shape
  \<^verbatim>\<open>protocol://[user[:password]@]host[:port][/path][?query][#fragment]\<close> in ASCII, with a
  protocol among http, https and ftp, and a host that is a dotted IPv4 address or a name of
  at least two dot-separated labels whose last one is alphabetic (or of the \<^verbatim>\<open>xn\<close> form).
  On these it follows validator.js with \<^verbatim>\<open>require_tld\<close> and \<^verbatim>\<open>require_protocol\<close>; every
  other text it turns down, also where some version of the library takes it (a protocol
  without \<^verbatim>\<open>//\<close>, an IPv6 host, a host name outside ASCII). It stands for the validator
  only in the concrete runs below, on texts where the two agree.
\<close>

definition isIPv4 :: "string \<Rightarrow> bool" where
  "isIPv4 host =
     (let parts = split_char (CHR ''.'') host
      in length parts = 4
         \<and> list_all (\<lambda>part. part \<noteq> [] \<and> length part \<le> 3 \<and> list_all is_digit part
                \<and> (length part = 1 \<or> hd part \<noteq> CHR ''0'')
                \<and> digits_value part \<le> 255) parts)"

definition isFQDN :: "string \<Rightarrow> bool" where
  "isFQDN host =
     (let parts = split_char (CHR ''.'') host; tld = last parts
      in 2 \<le> length parts
         \<and> ((2 \<le> length tld \<and> list_all is_alpha tld)
              \<or> (toLowerCase (take 2 tld) = ''xn'' \<and> 4 \<le> length tld
                  \<and> list_all (\<lambda>c. is_alpha c \<or> is_digit c \<or> c = CHR ''-'') tld))
         \<and> list_all (\<lambda>part. part \<noteq> [] \<and> length part \<le> 63
                \<and> list_all (\<lambda>c. is_alpha c \<or> is_digit c \<or> c = CHR ''-'') part
                \<and> hd part \<noteq> CHR ''-'' \<and> last part \<noteq> CHR ''-'') parts)"

definition valid_port :: "string \<Rightarrow> bool" where
  "valid_port port_str =
     (port_str = [] \<or> (list_all is_digit port_str
        \<and> 0 < digits_value port_str \<and> digits_value port_str \<le> 65535))"

definition valid_auth :: "string \<Rightarrow> bool" where
  "valid_auth auth = (auth \<noteq> [] \<and> length (split_char (CHR '':'') auth) \<le> 2 \<and> auth \<noteq> '':'')"

definition isURL_reference :: "string \<Rightarrow> bool" where
  "isURL_reference url =
     (url \<noteq> [] \<and> \<not> list_ex (\<lambda>c. is_space c \<or> c = CHR ''<'' \<or> c = CHR ''>'') url
      \<and> take 7 url \<noteq> ''mailto:'' \<and> length url < 2083
      \<and> (case split_protocol (hd (split_char (CHR ''?'') (hd (split_char (CHR ''#'') url)))) of
            None \<Rightarrow> False
          | Some (protocol, rest) \<Rightarrow>
              toLowerCase protocol \<in> set [''http'', ''https'', ''ftp''] \<and> rest \<noteq> []
              \<and> (let authority = hd (split_char (CHR ''/'') rest);
                      pieces = split_char (CHR ''@'') authority;
                      hostname = (if 1 < length pieces then join ''@'' (tl pieces) else authority);
                      host_port = split_char (CHR '':'') hostname
                  in (1 < length pieces \<longrightarrow> valid_auth (hd pieces))
                     \<and> valid_port (join '':'' (tl host_port))
                     \<and> (isIPv4 (hd host_port) \<or> isFQDN (hd host_port)))))"

definition reference_platform :: platform where
  "reference_platform = \<lparr>Number = Number_reference, isURL = isURL_reference\<rparr>"

section \<open>Provider selection (github.module.ts)\<close>

text \<open>
  \<^verbatim>\<open>GitHubModule.GitHubStatusProviderFactory.useFactory\<close>: the two injected provider
  instances are arguments, and the result is one of them. The thrown \<^verbatim>\<open>Error\<close> is the
  specification's \<^verbatim>\<open>UnknownProviderKind\<close>, with the message of the source.
\<close>

definition GitHubStatusProviderFactory :: "GitHubConfig \<Rightarrow> 'p \<Rightarrow> 'p \<Rightarrow> error + 'p" where
  "GitHubStatusProviderFactory appConfig defaultProvider mockProvider =
     (if githubStatusProviderType appConfig = ''default'' then Inr defaultProvider
      else if githubStatusProviderType appConfig = ''mock'' then Inr mockProvider
      else Inl (UnknownProviderKind
             (''Unknown githubStatusProviderType: '' @ githubStatusProviderType appConfig)))"

text \<open>The two classes registered with the module.\<close>

datatype provider_class = DefaultGitHubStatusProvider | MockGitHubStatusProvider

section \<open>Thrown values\<close>

text \<open>
  What a JavaScript \<^verbatim>\<open>catch\<close> can receive, as far as the code tells the cases apart: an
  instance of \<^verbatim>\<open>Error\<close> (name, message, stack when there is one), a Fetch \<^verbatim>\<open>Response\<close>
  (with its status), or any other value, kept as the text \<^verbatim>\<open>String(value)\<close> gives.
\<close>

datatype thrown =
    ErrorInstance string string "string option"
  | FetchResponse nat
  | OtherValue string

fun String_of :: "thrown \<Rightarrow> string" where
  "String_of (ErrorInstance name message _) =
     (if name = [] then message else if message = [] then name else name @ '': '' @ message)"
| "String_of (FetchResponse _) = ''[object Response]''"
| "String_of (OtherValue text) = text"

section \<open>GitHubStatusIndicator.isHealthy (github-status.health.ts)\<close>

text \<open>
  \<^verbatim>\<open>HealthIndicatorResult\<close>: an object with the one property \<^verbatim>\<open>key\<close>, whose value has a
  \<^verbatim>\<open>status\<close> and further fields. \<^verbatim>\<open>healthIndicatorService.check(key)\<close> is library code
  (@nestjs/terminus); \<^verbatim>\<open>up()\<close> gives status "up", \<^verbatim>\<open>down(data)\<close> gives status "down"
  followed by the fields of \<^verbatim>\<open>data\<close>.
\<close>

type_synonym HealthIndicatorResult = "string \<times> (string \<times> string) list"

definition indicator_up :: "string \<Rightarrow> HealthIndicatorResult" where
  "indicator_up key = (key, [(''status'', ''up'')])"

definition indicator_down :: "string \<Rightarrow> (string \<times> string) list \<Rightarrow> HealthIndicatorResult" where
  "indicator_down key data = (key, (''status'', ''down'') # data)"

text \<open>A call of \<^verbatim>\<open>logger.error(message, trace)\<close>.\<close>

type_synonym log_entry = "string \<times> string option"

text \<open>\<^verbatim>\<open>err instanceof Error ? err.message : String(err)\<close>\<close>

definition error_text :: "thrown \<Rightarrow> string" where
  "error_text err = (case err of ErrorInstance _ message _ \<Rightarrow> message | _ \<Rightarrow> String_of err)"

text \<open>\<^verbatim>\<open>err instanceof Error ? err.stack : String(err)\<close>\<close>

definition error_trace :: "thrown \<Rightarrow> string option" where
  "error_trace err = (case err of ErrorInstance _ _ stack \<Rightarrow> stack | _ \<Rightarrow> Some (String_of err))"

text \<open>
  \<^verbatim>\<open>isHealthy(key)\<close> over the injected provider: \<open>provider_getSummary\<close> is its \<^verbatim>\<open>getSummary\<close>,
  a step on the provider's state that resolves (\<open>Inr\<close>) or rejects (\<open>Inl\<close>). The result comes
  with what was logged.
\<close>

definition isHealthy ::
  "string \<Rightarrow> ('w \<Rightarrow> (thrown + GitHubStatusSummary) \<times> 'w) \<Rightarrow> 'w
     \<Rightarrow> (HealthIndicatorResult \<times> log_entry list) \<times> 'w" where
  "isHealthy key provider_getSummary w =
     (case provider_getSummary w of
        (Inr _, w') \<Rightarrow> ((indicator_up key, []), w')
      | (Inl err, w') \<Rightarrow>
          ((indicator_down key
              [(''message'', ''GitHub status check failed''), (''error'', error_text err)],
            [(''GitHub health check failed'', error_trace err)]), w'))"

text \<open>Reading a field of the result's value.\<close>

definition result_field :: "HealthIndicatorResult \<Rightarrow> string \<Rightarrow> string option" where
  "result_field r name = map_of (snd r) name"

section \<open>TelemetryProvider (telemetry.provider.ts)\<close>

record TelemetryConfig =
  telemetryEnabled :: bool
  otelExporterOtlpEndpoint :: string
  otelServiceName :: string
  otelServiceVersion :: string
  otelExportIntervalMs :: int

subsection \<open>initFromConfig\<close>

text \<open>
  A \<^verbatim>\<open>NodeSDK\<close> instance: the options it was constructed with, and \<open>sdk_serial\<close>, which
  tells two instances apart (the count of instances constructed before it).
\<close>

record NodeSDK =
  sdk_serial :: nat
  sdk_metrics_url :: string
  sdk_export_interval :: int
  sdk_service_name :: string
  sdk_service_version :: string
  sdk_traces_url :: string

text \<open>
  The process-wide state \<^verbatim>\<open>initFromConfig\<close> touches: \<^verbatim>\<open>global.__otel_sdk\<close>, the number of
  \<^verbatim>\<open>new NodeSDK(...)\<close> evaluated so far, and the lines written with \<^verbatim>\<open>logger.log\<close>.
\<close>

record globals =
  otel_sdk :: "NodeSDK option"
  sdk_constructed :: nat
  logged :: "string list"

definition initFromConfig :: "TelemetryConfig \<Rightarrow> globals \<Rightarrow> NodeSDK option \<times> globals" where
  "initFromConfig cfg g =
     (if \<not> telemetryEnabled cfg
      then (None, g\<lparr>logged := logged g
                      @ [''Telemetry disabled by configuration; not initializing SDK'']\<rparr>)
      else (let endpoint = otelExporterOtlpEndpoint cfg;
                serviceName = otelServiceName cfg;
                serviceVersion = otelServiceVersion cfg;
                exportIntervalMillis = otelExportIntervalMs cfg
            in case otel_sdk g of
                 Some sdk \<Rightarrow> (Some sdk, g)
               | None \<Rightarrow>
                   (let sdk = \<lparr>sdk_serial = sdk_constructed g,
                               sdk_metrics_url = endpoint @ ''/v1/metrics'',
                               sdk_export_interval = exportIntervalMillis,
                               sdk_service_name = serviceName,
                               sdk_service_version = serviceVersion,
                               sdk_traces_url = endpoint @ ''/v1/traces''\<rparr>
                    in (Some sdk,
                        g\<lparr>otel_sdk := Some sdk,
                          sdk_constructed := Suc (sdk_constructed g),
                          logged := logged g
                            @ [''Telemetry initialized; exporting to '' @ endpoint
                               @ '' (service='' @ serviceName @ ''@'' @ serviceVersion @ '')'']\<rparr>))))"

subsection \<open>withSpan\<close>

text \<open>
  A span is what was asked of it: the name and options it was started with, and the calls
  made on it since, oldest first.
\<close>

datatype span_call =
    RecordException string "string option" "string option"
  | SetStatusError "string option"
  | End
  | CallbackCall string

record 'o Span =
  span_name :: string
  span_options :: "'o option"
  span_calls :: "span_call list"

definition startSpan :: "string \<Rightarrow> 'o option \<Rightarrow> 'o Span" where
  "startSpan name options = \<lparr>span_name = name, span_options = options, span_calls = []\<rparr>"

definition call_span :: "span_call \<Rightarrow> 'o Span \<Rightarrow> 'o Span" where
  "call_span c sp = sp\<lparr>span_calls := span_calls sp @ [c]\<rparr>"

definition isError :: "thrown \<Rightarrow> bool" where
  "isError error = (case error of ErrorInstance _ _ _ \<Rightarrow> True | _ \<Rightarrow> False)"

definition isFetchResponse :: "thrown \<Rightarrow> bool" where
  "isFetchResponse error = (case error of FetchResponse _ \<Rightarrow> True | _ \<Rightarrow> False)"

definition getMessage :: "thrown \<Rightarrow> string option" where
  "getMessage error = (case error of ErrorInstance _ message _ \<Rightarrow> Some message | _ \<Rightarrow> None)"

definition getName :: "thrown \<Rightarrow> string" where
  "getName error = (case error of ErrorInstance name _ _ \<Rightarrow> name | _ \<Rightarrow> String_of error)"

definition getStack :: "thrown \<Rightarrow> string option" where
  "getStack error = (case error of ErrorInstance _ _ stack \<Rightarrow> stack | _ \<Rightarrow> None)"

definition recordSpanException :: "thrown \<Rightarrow> 'o Span \<Rightarrow> 'o Span" where
  "recordSpanException error sp =
     (if \<not> isFetchResponse error
      then call_span (SetStatusError (getMessage error))
             (call_span (RecordException (getName error) (getMessage error) (getStack error)) sp)
      else sp)"

text \<open>
  How a call of the callback ends: it returns a value that is no \<^verbatim>\<open>Promise\<close>, it throws, or
  it returns a \<^verbatim>\<open>Promise\<close> that is fulfilled or rejected. \<^verbatim>\<open>withSpan\<close> ends the same four ways.
\<close>

datatype 'a completion =
    Returned 'a
  | Threw thrown
  | Fulfilled 'a
  | Rejected thrown

text \<open>
  \<^verbatim>\<open>withSpan(name, fn, options)\<close>. The callback gets the span and may call it; it gives
  back how it ended and the span as it left it. The result is how \<^verbatim>\<open>withSpan\<close> ends and the
  span after it.
\<close>

definition withSpan ::
  "string \<Rightarrow> ('o Span \<Rightarrow> 'a completion \<times> 'o Span) \<Rightarrow> 'o option \<Rightarrow> 'a completion \<times> 'o Span" where
  "withSpan name fn options =
     (let sp = startSpan name options
      in case fn sp of
           (Fulfilled res, sp') \<Rightarrow> (Fulfilled res, call_span End sp')
         | (Rejected error, sp') \<Rightarrow> (Rejected error, call_span End (recordSpanException error sp'))
         | (Returned result, sp') \<Rightarrow> (Returned result, call_span End sp')
         | (Threw error, sp') \<Rightarrow> (Threw error, call_span End (recordSpanException error sp')))"

definition end_calls :: "'o Span \<Rightarrow> nat" where
  "end_calls sp = count_list (span_calls sp) End"

section \<open>Concrete inputs\<close>

text \<open>A summary as the status endpoint sends it, and a later, different one.\<close>

definition summary_operational :: GitHubStatusSummary where
  "summary_operational = [(''status'', JObj [(''indicator'', JStr ''none'')])]"


text \<open>A configuration whose TTL is not a whole number of seconds.\<close>

definition config_ttl_1500 :: GitHubConfig where
  "config_ttl_1500 =
     \<lparr>githubStatusUrl = default_githubStatusUrl, githubStatusCacheTtlMs = 1500,
      githubStatusProviderType = ''default'', githubStatusTimeoutMs = 2000\<rparr>"

definition net_operational :: network where
  "net_operational = (\<lambda>url. Responds 200 summary_operational 120)"


definition net_status_500 :: network where
  "net_status_500 = (\<lambda>url. Responds 500 [] 80)"

definition net_slow :: network where
  "net_slow = (\<lambda>url. Responds 200 summary_operational 5000)"

definition net_unreachable :: network where
  "net_unreachable = (\<lambda>url. NetworkFailure ''connect ECONNREFUSED'')"

definition fresh_world :: world where
  "fresh_world = \<lparr>cache = Map.empty, requests = []\<rparr>"

text \<open>The world after one successful \<^verbatim>\<open>getSummary\<close> at time 0 on a fresh process.\<close>

definition world_after_fetch :: world where
  "world_after_fetch = snd (getSummary config_ttl_1500 net_operational 0 fresh_world)"

text \<open>Three providers for the health indicator: one resolves, two reject.\<close>

definition resolving_getSummary :: "world \<Rightarrow> (thrown + GitHubStatusSummary) \<times> world" where
  "resolving_getSummary w = (Inr summary_operational, w)"

definition rejecting_getSummary :: "world \<Rightarrow> (thrown + GitHubStatusSummary) \<times> world" where
  "rejecting_getSummary w =
     (Inl (ErrorInstance ''AxiosError'' ''Request failed with status code 500'' None),
      w\<lparr>requests := requests w @ [default_githubStatusUrl]\<rparr>)"

definition rejecting_with_text :: "world \<Rightarrow> (thrown + GitHubStatusSummary) \<times> world" where
  "rejecting_with_text w = (Inl (OtherValue ''upstream unavailable''), w)"

text \<open>Callbacks for \<^verbatim>\<open>withSpan\<close>, one for each way of ending.\<close>

definition callback_returns :: "unit Span \<Rightarrow> int completion \<times> unit Span" where
  "callback_returns sp = (Returned 42, call_span (CallbackCall ''setAttribute'') sp)"

definition callback_throws :: "unit Span \<Rightarrow> int completion \<times> unit Span" where
  "callback_throws sp = (Threw (ErrorInstance ''TypeError'' ''x is not a function'' None), sp)"

definition callback_fulfils :: "unit Span \<Rightarrow> int completion \<times> unit Span" where
  "callback_fulfils sp = (Fulfilled 7, sp)"

definition callback_rejects :: "unit Span \<Rightarrow> int completion \<times> unit Span" where
  "callback_rejects sp = (Rejected (FetchResponse 302), sp)"

text \<open>Telemetry configurations and the globals of a process that has not initialised yet.\<close>

definition telemetry_on :: TelemetryConfig where
  "telemetry_on =
     \<lparr>telemetryEnabled = True, otelExporterOtlpEndpoint = ''http://localhost:4318'',
      otelServiceName = ''nestjs-rr7'', otelServiceVersion = ''0.0.0'',
      otelExportIntervalMs = 60000\<rparr>"

definition telemetry_on_other :: TelemetryConfig where
  "telemetry_on_other =
     \<lparr>telemetryEnabled = True, otelExporterOtlpEndpoint = ''http://collector:4318'',
      otelServiceName = ''other'', otelServiceVersion = ''1.0.0'',
      otelExportIntervalMs = 1000\<rparr>"

definition telemetry_off :: TelemetryConfig where
  "telemetry_off = telemetry_on\<lparr>telemetryEnabled := False\<rparr>"

definition fresh_globals :: globals where
  "fresh_globals = \<lparr>otel_sdk = None, sdk_constructed = 0, logged = []\<rparr>"

section \<open>Facts about the model\<close>

lemma Math_ceil_div1000_ceiling: "Math_ceil_div1000 n = \<lceil>real_of_int n / 1000\<rceil>"
  unfolding Math_ceil_div1000_def using ceiling_divide_eq_div [where ?'a = real, of n 1000] by simp



lemma getSummary_miss_failure:
  assumes "cacheManager_get (cache w) ''github-status:summary'' now = None"
      and "http_get_timeout net (githubStatusUrl appConfig) (githubStatusTimeoutMs appConfig) = Inl e"
  shows "getSummary appConfig net now w =
           (Inl e, w\<lparr>requests := requests w @ [githubStatusUrl appConfig]\<rparr>)"
  using assms by (simp add: getSummary_def)

lemma getSummary_miss_success:
  assumes "cacheManager_get (cache w) ''github-status:summary'' now = None"
      and "http_get_timeout net (githubStatusUrl appConfig) (githubStatusTimeoutMs appConfig)
             = Inr (response, elapsed)"
  shows "getSummary appConfig net now w =
           (Inr (response_data response),
            w\<lparr>requests := requests w @ [githubStatusUrl appConfig],
              cache := cacheManager_set (cache w) ''github-status:summary''
                 (response_data response)
                 (Math_ceil_div1000 (githubStatusCacheTtlMs appConfig)) (now + elapsed)\<rparr>)"
  using assms by (simp add: getSummary_def Let_def)

lemma http_get_timeout_failure:
  assumes "case net url of
             NetworkFailure reason \<Rightarrow> True
           | Responds code payload latency \<Rightarrow> code < 200 \<or> 300 \<le> code \<or> timeoutMs < latency"
  shows "\<exists>cause. http_get_timeout net url timeoutMs = Inl (FetchFailed cause)"
  using assms by (auto simp: http_get_timeout_def split: upstream_reply.splits)


lemma http_operational:
  "http_get_timeout net_operational default_githubStatusUrl 2000
     = Inr (\<lparr>response_status = 200, response_data = summary_operational\<rparr>, 120)"
  by (simp add: http_get_timeout_def net_operational_def)

lemma fresh_world_miss:
  "cacheManager_get (cache fresh_world) ''github-status:summary'' t = None"
  by (simp add: cacheManager_get_def fresh_world_def)

lemma world_after_fetch_eq:
  "world_after_fetch =
     \<lparr>cache = [''github-status:summary'' \<mapsto> \<lparr>entry_value = summary_operational, expiresAt = 2120\<rparr>],
      requests = [default_githubStatusUrl]\<rparr>"
  unfolding world_after_fetch_def
  using getSummary_miss_success [OF fresh_world_miss [of 0], of net_operational config_ttl_1500]
  by (simp add: config_ttl_1500_def http_operational cacheManager_set_def fresh_world_def
      Math_ceil_div1000_def)

lemma expired_world_miss:
  "cacheManager_get (cache world_after_fetch) ''github-status:summary'' 5000 = None"
  by (simp add: world_after_fetch_eq cacheManager_get_def)

section \<open>The cache in front of the status fetch\<close>




text \<open>
  Claim C2: whenever the upstream call fails, \<^verbatim>\<open>getSummary\<close> rejects with a
  \<^verbatim>\<open>FetchFailed\<close> error, which its caller receives. The upstream call is made after a cache
  miss; it fails when the network fails, when the answer has a status outside 200..299, or
  when the answer takes longer than \<^verbatim>\<open>githubStatusTimeoutMs\<close>.
\<close>

theorem getSummary_rejects_with_FetchFailed:
  assumes "cacheManager_get (cache w) ''github-status:summary'' now = None"
      and "case net (githubStatusUrl appConfig) of
             NetworkFailure reason \<Rightarrow> True
           | Responds code payload latency \<Rightarrow>
               code < 200 \<or> 300 \<le> code \<or> githubStatusTimeoutMs appConfig < latency"
  shows "\<exists>cause. fst (getSummary appConfig net now w) = Inl (FetchFailed cause)"
proof -
  obtain cause where
    "http_get_timeout net (githubStatusUrl appConfig) (githubStatusTimeoutMs appConfig)
       = Inl (FetchFailed cause)"
    using assms(2)
      http_get_timeout_failure
        [where net = net and url = "githubStatusUrl appConfig"
           and timeoutMs = "githubStatusTimeoutMs appConfig"]
    by blast
  then have "fst (getSummary appConfig net now w) = Inl (FetchFailed cause)"
    using getSummary_miss_failure [OF assms(1)] by simp
  then show ?thesis by blast
qed

text \<open>C2 at three concrete failures: status 500, a refused connection, a slow answer.\<close>

theorem getSummary_rejects_with_FetchFailed_witness:
  "fst (getSummary config_ttl_1500 net_status_500 0 fresh_world)
     = Inl (FetchFailed (NonSuccessStatus 500))
   \<and> fst (getSummary config_ttl_1500 net_unreachable 0 fresh_world)
     = Inl (FetchFailed (NetworkError ''connect ECONNREFUSED''))
   \<and> fst (getSummary config_ttl_1500 net_slow 0 fresh_world)
     = Inl (FetchFailed TimeoutExceeded)"
proof -
  have h1: "cacheManager_get (cache fresh_world) ''github-status:summary'' 0 = None"
    by (rule fresh_world_miss)
  have h2: "case net_status_500 (githubStatusUrl config_ttl_1500) of
              NetworkFailure reason \<Rightarrow> True
            | Responds code payload latency \<Rightarrow>
                code < 200 \<or> 300 \<le> code \<or> githubStatusTimeoutMs config_ttl_1500 < latency"
    by (simp add: net_status_500_def)
  have h3: "case net_unreachable (githubStatusUrl config_ttl_1500) of
              NetworkFailure reason \<Rightarrow> True
            | Responds code payload latency \<Rightarrow>
                code < 200 \<or> 300 \<le> code \<or> githubStatusTimeoutMs config_ttl_1500 < latency"
    by (simp add: net_unreachable_def)
  have h4: "case net_slow (githubStatusUrl config_ttl_1500) of
              NetworkFailure reason \<Rightarrow> True
            | Responds code payload latency \<Rightarrow>
                code < 200 \<or> 300 \<le> code \<or> githubStatusTimeoutMs config_ttl_1500 < latency"
    by (simp add: net_slow_def config_ttl_1500_def)
  show ?thesis
    using h1 h2 h3 h4
      getSummary_rejects_with_FetchFailed
        [where w = fresh_world and now = 0 and net = net_status_500 and appConfig = config_ttl_1500]
      getSummary_rejects_with_FetchFailed
        [where w = fresh_world and now = 0 and net = net_unreachable and appConfig = config_ttl_1500]
      getSummary_rejects_with_FetchFailed
        [where w = fresh_world and now = 0 and net = net_slow and appConfig = config_ttl_1500]
    by (simp add: getSummary_def http_get_timeout_def fresh_world_def cacheManager_get_def
        net_status_500_def net_unreachable_def net_slow_def config_ttl_1500_def)
qed

text \<open>
  Claim C6: whenever the upstream call fails, \<^verbatim>\<open>getSummary\<close> writes nothing to the cache:
  the cache after the rejected call is the cache before it.
\<close>

theorem getSummary_failure_leaves_cache:
  assumes "cacheManager_get (cache w) ''github-status:summary'' now = None"
      and "case net (githubStatusUrl appConfig) of
             NetworkFailure reason \<Rightarrow> True
           | Responds code payload latency \<Rightarrow>
               code < 200 \<or> 300 \<le> code \<or> githubStatusTimeoutMs appConfig < latency"
  shows "cache (snd (getSummary appConfig net now w)) = cache w"
proof -
  obtain cause where
    "http_get_timeout net (githubStatusUrl appConfig) (githubStatusTimeoutMs appConfig)
       = Inl (FetchFailed cause)"
    using assms(2)
      http_get_timeout_failure
        [where net = net and url = "githubStatusUrl appConfig"
           and timeoutMs = "githubStatusTimeoutMs appConfig"]
    by blast
  then show ?thesis
    using getSummary_miss_failure [OF assms(1)] by simp
qed

text \<open>
  C6 at a concrete input: the entry stored earlier has expired, the upstream answers 500,
  and the (expired) entry is still what the cache holds.
\<close>

theorem getSummary_failure_leaves_cache_witness:
  "cache (snd (getSummary config_ttl_1500 net_status_500 5000 world_after_fetch))
     = cache world_after_fetch
   \<and> cache world_after_fetch ''github-status:summary''
       = Some \<lparr>entry_value = summary_operational, expiresAt = 2120\<rparr>"
proof -
  have h2: "case net_status_500 (githubStatusUrl config_ttl_1500) of
              NetworkFailure reason \<Rightarrow> True
            | Responds code payload latency \<Rightarrow>
                code < 200 \<or> 300 \<le> code \<or> githubStatusTimeoutMs config_ttl_1500 < latency"
    by (simp add: net_status_500_def)
  show ?thesis
    using expired_world_miss h2
      getSummary_failure_leaves_cache
        [where w = world_after_fetch and now = 5000 and net = net_status_500
           and appConfig = config_ttl_1500]
    by (simp add: world_after_fetch_eq)
qed



section \<open>Loading the GitHub configuration\<close>

lemmas env_keys =
  GITHUB_STATUS_URL_def GITHUB_STATUS_CACHE_TTL_MS_def GITHUB_STATUS_PROVIDER_TYPE_def
  GITHUB_STATUS_TIMEOUT_MS_def

lemma isURL_reference_default: "isURL reference_platform default_githubStatusUrl"
  by code_simp







lemma validateConfigSlice_ok_iff:
  "(\<exists>c. validateConfigSlice_GitHubConfig p source = Inr c)
     \<longleftrightarrow> validateSync_GitHubConfig p (plainToInstance_GitHubConfig p source) = []"
  by (simp add: validateConfigSlice_GitHubConfig_def Let_def)

lemma validateSync_without_provider_type:
  "validateSync_GitHubConfig p
       (plainToInstance_GitHubConfig p (source(GITHUB_STATUS_PROVIDER_TYPE \<mapsto> k))) = []
     \<longleftrightarrow> IsIn [''mock'', ''default''] k
         \<and> validateSync_GitHubConfig p
              (plainToInstance_GitHubConfig p (source(GITHUB_STATUS_PROVIDER_TYPE := None))) = []"
  by (simp add: validateSync_GitHubConfig_def plainToInstance_GitHubConfig_def env_keys
      property_errors_def IsIn_def)

lemma defaults_pass:
  "IsInt (Finite 60000) \<and> Min_validator 0 (Finite 60000)
   \<and> IsInt (Finite 2000) \<and> Min_validator 0 (Finite 2000)
   \<and> integer_value (Finite 60000) = 60000 \<and> integer_value (Finite 2000) = 2000"
proof -
  have "(60000::rat) = of_int 60000" "(2000::rat) = of_int 2000" by simp_all
  then show ?thesis
    unfolding IsInt_def Min_validator_def integer_value_def
    by (simp only: js_number.case floor_of_int) simp
qed




section \<open>Selecting the provider\<close>

text \<open>
  Claim C4, as stated, fails: there is no provider kind \<^verbatim>\<open>real\<close>. The factory throws on
  it, and the schema rejects it before (\<^verbatim>\<open>@IsIn(['mock', 'default'])\<close>).
\<close>

theorem provider_kind_real_rejected:
  "GitHubStatusProviderFactory (config_ttl_1500\<lparr>githubStatusProviderType := ''real''\<rparr>)
       DefaultGitHubStatusProvider MockGitHubStatusProvider
     = Inl (UnknownProviderKind ''Unknown githubStatusProviderType: real'')
   \<and> validateConfigSlice_GitHubConfig reference_platform [GITHUB_STATUS_PROVIDER_TYPE \<mapsto> ''real'']
     = Inl (ConfigInvalid ''Invalid environment variables: githubStatusProviderType: GITHUB_STATUS_PROVIDER_TYPE must be one of: mock, default'')"
  using isURL_reference_default defaults_pass
  by (simp add: GitHubStatusProviderFactory_def validateConfigSlice_GitHubConfig_def
      plainToInstance_GitHubConfig_def validateSync_GitHubConfig_def property_errors_def
      formatValidationErrors_def IsIn_def env_keys)

text \<open>
  Claim C4, amended: the accepted provider kinds are exactly \<^verbatim>\<open>default\<close> and \<^verbatim>\<open>mock\<close>, with
  default \<^verbatim>\<open>mock\<close>, and selecting \<^verbatim>\<open>default\<close> succeeds and resolves to the
  \<^verbatim>\<open>DefaultGitHubStatusProvider\<close> instance, the one that makes the network calls
  (selecting \<^verbatim>\<open>mock\<close> resolves to the mock instance). For the schema, on every platform: a
  value \<open>k\<close> of \<^verbatim>\<open>GITHUB_STATUS_PROVIDER_TYPE\<close> loads exactly when it is one of the two and
  the rest of the environment loads without the variable; without the variable the kind is
  \<^verbatim>\<open>mock\<close>. For the factory: it returns a provider exactly for the two kinds.
\<close>

theorem provider_kinds_default_and_mock:
  "((\<exists>c. validateConfigSlice_GitHubConfig p (source(GITHUB_STATUS_PROVIDER_TYPE \<mapsto> k)) = Inr c)
      \<longleftrightarrow> k \<in> {''mock'', ''default''}
          \<and> (\<exists>c. validateConfigSlice_GitHubConfig p (source(GITHUB_STATUS_PROVIDER_TYPE := None))
                 = Inr c))
   \<and> inst_githubStatusProviderType
        (plainToInstance_GitHubConfig p (source(GITHUB_STATUS_PROVIDER_TYPE := None))) = ''mock''
   \<and> GitHubStatusProviderFactory (appConfig\<lparr>githubStatusProviderType := ''default''\<rparr>)
        defaultProvider mockProvider = Inr defaultProvider
   \<and> GitHubStatusProviderFactory (appConfig\<lparr>githubStatusProviderType := ''mock''\<rparr>)
        defaultProvider mockProvider = Inr mockProvider
   \<and> ((\<exists>q. GitHubStatusProviderFactory appConfig defaultProvider mockProvider = Inr q)
        \<longleftrightarrow> githubStatusProviderType appConfig \<in> {''mock'', ''default''})"
proof (intro conjI)
  show "(\<exists>c. validateConfigSlice_GitHubConfig p (source(GITHUB_STATUS_PROVIDER_TYPE \<mapsto> k)) = Inr c)
      \<longleftrightarrow> k \<in> {''mock'', ''default''}
          \<and> (\<exists>c. validateConfigSlice_GitHubConfig p (source(GITHUB_STATUS_PROVIDER_TYPE := None))
                 = Inr c)"
    unfolding validateConfigSlice_ok_iff validateSync_without_provider_type
    by (simp add: IsIn_def)
  show "inst_githubStatusProviderType
        (plainToInstance_GitHubConfig p (source(GITHUB_STATUS_PROVIDER_TYPE := None))) = ''mock''"
    by (simp add: plainToInstance_GitHubConfig_def)
  show "GitHubStatusProviderFactory (appConfig\<lparr>githubStatusProviderType := ''default''\<rparr>)
        defaultProvider mockProvider = Inr defaultProvider"
    by (simp add: GitHubStatusProviderFactory_def)
  show "GitHubStatusProviderFactory (appConfig\<lparr>githubStatusProviderType := ''mock''\<rparr>)
        defaultProvider mockProvider = Inr mockProvider"
    by (simp add: GitHubStatusProviderFactory_def)
  show "(\<exists>q. GitHubStatusProviderFactory appConfig defaultProvider mockProvider = Inr q)
        \<longleftrightarrow> githubStatusProviderType appConfig \<in> {''mock'', ''default''}"
    by (auto simp: GitHubStatusProviderFactory_def)
qed

text \<open>
  The amended C4 at a concrete input, on the reference platform: the environment that sets
  the kind to \<^verbatim>\<open>default\<close>.
\<close>

theorem provider_kinds_default_and_mock_witness:
  "validateConfigSlice_GitHubConfig reference_platform [GITHUB_STATUS_PROVIDER_TYPE \<mapsto> ''default'']
     = Inr \<lparr>githubStatusUrl = default_githubStatusUrl, githubStatusCacheTtlMs = 60000,
            githubStatusProviderType = ''default'', githubStatusTimeoutMs = 2000\<rparr>
   \<and> GitHubStatusProviderFactory
        \<lparr>githubStatusUrl = default_githubStatusUrl, githubStatusCacheTtlMs = 60000,
          githubStatusProviderType = ''default'', githubStatusTimeoutMs = 2000\<rparr>
        DefaultGitHubStatusProvider MockGitHubStatusProvider = Inr DefaultGitHubStatusProvider"
proof -
  have loads: "validateConfigSlice_GitHubConfig reference_platform
                 [GITHUB_STATUS_PROVIDER_TYPE \<mapsto> ''default'']
     = Inr \<lparr>githubStatusUrl = default_githubStatusUrl, githubStatusCacheTtlMs = 60000,
            githubStatusProviderType = ''default'', githubStatusTimeoutMs = 2000\<rparr>"
    using isURL_reference_default defaults_pass
    by (simp add: validateConfigSlice_GitHubConfig_def plainToInstance_GitHubConfig_def
      validateSync_GitHubConfig_def property_errors_def validated_GitHubConfig_def
      IsIn_def env_keys)
  show ?thesis
    using loads
      provider_kinds_default_and_mock
        [where p = reference_platform and source = Map.empty and k = "''default''"
           and appConfig = "\<lparr>githubStatusUrl = default_githubStatusUrl,
                 githubStatusCacheTtlMs = 60000, githubStatusProviderType = ''default'',
                 githubStatusTimeoutMs = 2000\<rparr>"
           and defaultProvider = DefaultGitHubStatusProvider
           and mockProvider = MockGitHubStatusProvider]
    by simp
qed

text \<open>
  Claim C5: for every provider kind that has no registered implementation, the selection
  raises \<^verbatim>\<open>UnknownProviderKind\<close>. The factory runs when the module's providers are
  constructed; it returns the error in place of a provider, so there is no provider whose
  \<^verbatim>\<open>getSummary\<close> could be called.
\<close>

theorem GitHubStatusProviderFactory_unknown_kind:
  assumes "githubStatusProviderType appConfig \<notin> {''default'', ''mock''}"
  shows "GitHubStatusProviderFactory appConfig defaultProvider mockProvider
           = Inl (UnknownProviderKind
                   (''Unknown githubStatusProviderType: '' @ githubStatusProviderType appConfig))"
  using assms by (simp add: GitHubStatusProviderFactory_def)

text \<open>C5 at the concrete kind \<^verbatim>\<open>live\<close>.\<close>

theorem GitHubStatusProviderFactory_unknown_kind_witness:
  "githubStatusProviderType (config_ttl_1500\<lparr>githubStatusProviderType := ''live''\<rparr>)
     \<notin> {''default'', ''mock''}
   \<and> GitHubStatusProviderFactory (config_ttl_1500\<lparr>githubStatusProviderType := ''live''\<rparr>)
       DefaultGitHubStatusProvider MockGitHubStatusProvider
     = Inl (UnknownProviderKind ''Unknown githubStatusProviderType: live'')"
proof -
  have h: "githubStatusProviderType (config_ttl_1500\<lparr>githubStatusProviderType := ''live''\<rparr>)
             \<notin> {''default'', ''mock''}"
    by simp
  show ?thesis
    using h GitHubStatusProviderFactory_unknown_kind
              [OF h, of DefaultGitHubStatusProvider MockGitHubStatusProvider]
    by simp
qed

section \<open>The health indicator\<close>

lemma isHealthy_resolved:
  "fst (g w) = Inr v \<Longrightarrow> fst (fst (isHealthy key g w)) = indicator_up key"
  by (cases "g w") (simp add: isHealthy_def)

lemma isHealthy_rejected:
  "fst (g w) = Inl err \<Longrightarrow>
   fst (fst (isHealthy key g w))
     = indicator_down key
         [(''message'', ''GitHub status check failed''), (''error'', error_text err)]"
  by (cases "g w") (simp add: isHealthy_def)

text \<open>
  Claim C8: \<^verbatim>\<open>isHealthy(key)\<close> gives an "up" result exactly when the provider's
  \<^verbatim>\<open>getSummary()\<close> resolves, and a "down" result exactly when it rejects; the "down" result
  carries, as its \<^verbatim>\<open>error\<close> field, the textual description of what was thrown, which for
  an \<^verbatim>\<open>Error\<close> is its message.
\<close>

theorem isHealthy_up_iff_getSummary_resolves:
  "(result_field (fst (fst (isHealthy key g w))) ''status'' = Some ''up''
      \<longleftrightarrow> (\<exists>v. fst (g w) = Inr v))
   \<and> (result_field (fst (fst (isHealthy key g w))) ''status'' = Some ''down''
      \<longleftrightarrow> (\<exists>err. fst (g w) = Inl err))
   \<and> (\<forall>v. fst (g w) = Inr v \<longrightarrow> fst (fst (isHealthy key g w)) = indicator_up key)
   \<and> (\<forall>err. fst (g w) = Inl err \<longrightarrow>
         fst (fst (isHealthy key g w))
           = indicator_down key
               [(''message'', ''GitHub status check failed''), (''error'', error_text err)]
         \<and> result_field (fst (fst (isHealthy key g w))) ''error'' = Some (error_text err))
   \<and> error_text (ErrorInstance name message stack) = message"
proof (cases "fst (g w)")
  case (Inl err)
  then show ?thesis
    using isHealthy_rejected [of g w err key]
    by (simp add: result_field_def indicator_down_def error_text_def)
next
  case (Inr v)
  then show ?thesis
    using isHealthy_resolved [of g w v key]
    by (simp add: result_field_def indicator_up_def error_text_def)
qed

text \<open>
  C8 at three providers: one that resolves, one that rejects with an \<^verbatim>\<open>Error\<close>, one that
  rejects with a value that is no \<^verbatim>\<open>Error\<close>.
\<close>

theorem isHealthy_up_iff_getSummary_resolves_witness:
  "fst (fst (isHealthy ''github'' resolving_getSummary fresh_world))
     = (''github'', [(''status'', ''up'')])
   \<and> fst (fst (isHealthy ''github'' rejecting_getSummary fresh_world))
     = (''github'', [(''status'', ''down''), (''message'', ''GitHub status check failed''),
                     (''error'', ''Request failed with status code 500'')])
   \<and> fst (fst (isHealthy ''github'' rejecting_with_text fresh_world))
     = (''github'', [(''status'', ''down''), (''message'', ''GitHub status check failed''),
                     (''error'', ''upstream unavailable'')])"
proof -
  have h1: "fst (resolving_getSummary fresh_world) = Inr summary_operational"
    by (simp add: resolving_getSummary_def)
  have h2: "fst (rejecting_getSummary fresh_world)
              = Inl (ErrorInstance ''AxiosError'' ''Request failed with status code 500'' None)"
    by (simp add: rejecting_getSummary_def)
  have h3: "fst (rejecting_with_text fresh_world) = Inl (OtherValue ''upstream unavailable'')"
    by (simp add: rejecting_with_text_def)
  show ?thesis
    using h1 h2 h3
      isHealthy_up_iff_getSummary_resolves
        [where key = "''github''" and g = resolving_getSummary and w = fresh_world]
      isHealthy_up_iff_getSummary_resolves
        [where key = "''github''" and g = rejecting_getSummary and w = fresh_world]
      isHealthy_up_iff_getSummary_resolves
        [where key = "''github''" and g = rejecting_with_text and w = fresh_world]
    by (simp add: indicator_up_def indicator_down_def error_text_def)
qed

section \<open>Telemetry\<close>

lemma end_calls_call_span_End: "end_calls (call_span End sp) = Suc (end_calls sp)"
  by (simp add: end_calls_def call_span_def)

lemma end_calls_recordSpanException: "end_calls (recordSpanException error sp) = end_calls sp"
  by (simp add: end_calls_def call_span_def recordSpanException_def)

text \<open>
  Claim C9: \<^verbatim>\<open>withSpan(name, fn)\<close> ends the way its callback ends: the same value returned or
  fulfilled, the same error thrown or rejected. On each of the four paths \<^verbatim>\<open>withSpan\<close>
  calls \<^verbatim>\<open>span.end()\<close> once, as the last call on the span: the span has one more \<^verbatim>\<open>end\<close>
  than the callback left on it, so exactly one when the callback did not end it itself.
\<close>

theorem withSpan_transparent:
  "fst (withSpan name fn options) = fst (fn (startSpan name options))
   \<and> end_calls (snd (withSpan name fn options))
       = Suc (end_calls (snd (fn (startSpan name options))))
   \<and> last (span_calls (snd (withSpan name fn options))) = End
   \<and> (end_calls (snd (fn (startSpan name options))) = 0
        \<longrightarrow> end_calls (snd (withSpan name fn options)) = 1)"
proof -
  obtain outcome sp' where run: "fn (startSpan name options) = (outcome, sp')"
    by (cases "fn (startSpan name options)")
  show ?thesis
    by (cases outcome)
       (simp_all add: withSpan_def run end_calls_call_span_End end_calls_recordSpanException,
        simp_all add: call_span_def)
qed

text \<open>C9 at four callbacks, one for each way of ending.\<close>

theorem withSpan_transparent_witness:
  "withSpan ''work'' callback_returns None
     = (Returned 42,
        \<lparr>span_name = ''work'', span_options = None,
          span_calls = [CallbackCall ''setAttribute'', End]\<rparr>)
   \<and> withSpan ''work'' callback_throws None
     = (Threw (ErrorInstance ''TypeError'' ''x is not a function'' None),
        \<lparr>span_name = ''work'', span_options = None,
          span_calls = [RecordException ''TypeError'' (Some ''x is not a function'') None,
                        SetStatusError (Some ''x is not a function''), End]\<rparr>)
   \<and> fst (withSpan ''work'' callback_fulfils None) = Fulfilled 7
   \<and> end_calls (snd (withSpan ''work'' callback_fulfils None)) = 1
   \<and> fst (withSpan ''work'' callback_rejects None) = Rejected (FetchResponse 302)
   \<and> end_calls (snd (withSpan ''work'' callback_rejects None)) = 1"
proof -
  have h: "end_calls (snd (callback_fulfils (startSpan ''work'' None))) = 0"
    "end_calls (snd (callback_rejects (startSpan ''work'' None))) = 0"
    by (simp_all add: callback_fulfils_def callback_rejects_def startSpan_def end_calls_def)
  have shapes: "withSpan ''work'' callback_returns None
     = (Returned 42,
        \<lparr>span_name = ''work'', span_options = None,
          span_calls = [CallbackCall ''setAttribute'', End]\<rparr>)"
    "withSpan ''work'' callback_throws None
     = (Threw (ErrorInstance ''TypeError'' ''x is not a function'' None),
        \<lparr>span_name = ''work'', span_options = None,
          span_calls = [RecordException ''TypeError'' (Some ''x is not a function'') None,
                        SetStatusError (Some ''x is not a function''), End]\<rparr>)"
    by (simp_all add: withSpan_def callback_returns_def callback_throws_def startSpan_def
        call_span_def recordSpanException_def isFetchResponse_def getName_def getMessage_def
        getStack_def)
  show ?thesis
    using h shapes
      withSpan_transparent [where name = "''work''" and fn = callback_fulfils and options = None]
      withSpan_transparent [where name = "''work''" and fn = callback_rejects and options = None]
    by (simp add: callback_fulfils_def callback_rejects_def)
qed

text \<open>
  Claim C10: once a \<^verbatim>\<open>NodeSDK\<close> is stored in \<^verbatim>\<open>global.__otel_sdk\<close>, a call of
  \<^verbatim>\<open>initFromConfig\<close> with telemetry enabled returns that instance and changes nothing, and
  any call leaves the stored instance and the number of constructed SDKs as they are; a
  call with telemetry disabled returns \<^verbatim>\<open>undefined\<close> and constructs and stores nothing.
  So after one enabled call, every further enabled call, whatever its configuration,
  returns the instance of the first.
\<close>

theorem initFromConfig_idempotent:
  "(telemetryEnabled cfg \<and> otel_sdk g = Some sdk \<longrightarrow> initFromConfig cfg g = (Some sdk, g))
   \<and> (\<not> telemetryEnabled cfg \<longrightarrow>
         fst (initFromConfig cfg g) = None
         \<and> otel_sdk (snd (initFromConfig cfg g)) = otel_sdk g
         \<and> sdk_constructed (snd (initFromConfig cfg g)) = sdk_constructed g)
   \<and> (otel_sdk g = Some sdk \<longrightarrow>
         otel_sdk (snd (initFromConfig cfg g)) = Some sdk
         \<and> sdk_constructed (snd (initFromConfig cfg g)) = sdk_constructed g)
   \<and> (telemetryEnabled cfg \<and> telemetryEnabled cfg' \<longrightarrow>
         fst (initFromConfig cfg g) \<noteq> None
         \<and> otel_sdk (snd (initFromConfig cfg g)) = fst (initFromConfig cfg g)
         \<and> initFromConfig cfg' (snd (initFromConfig cfg g))
             = (fst (initFromConfig cfg g), snd (initFromConfig cfg g)))"
  by (cases "otel_sdk g") (simp_all add: initFromConfig_def Let_def)

text \<open>
  C10 at concrete inputs: a first enabled call on a fresh process, a second enabled call
  with another configuration, and disabled calls before and after.
\<close>

theorem initFromConfig_idempotent_witness:
  "fst (initFromConfig telemetry_on fresh_globals)
     = Some \<lparr>sdk_serial = 0, sdk_metrics_url = ''http://localhost:4318/v1/metrics'',
              sdk_export_interval = 60000, sdk_service_name = ''nestjs-rr7'',
              sdk_service_version = ''0.0.0'',
              sdk_traces_url = ''http://localhost:4318/v1/traces''\<rparr>
   \<and> initFromConfig telemetry_on_other (snd (initFromConfig telemetry_on fresh_globals))
     = initFromConfig telemetry_on fresh_globals
   \<and> sdk_constructed (snd (initFromConfig telemetry_on_other
        (snd (initFromConfig telemetry_on fresh_globals)))) = 1
   \<and> fst (initFromConfig telemetry_off (snd (initFromConfig telemetry_on fresh_globals))) = None
   \<and> fst (initFromConfig telemetry_off fresh_globals) = None
   \<and> otel_sdk (snd (initFromConfig telemetry_off fresh_globals)) = None
   \<and> sdk_constructed (snd (initFromConfig telemetry_off fresh_globals)) = 0"
proof -
  have on: "telemetryEnabled telemetry_on \<and> telemetryEnabled telemetry_on_other"
    by (simp add: telemetry_on_def telemetry_on_other_def)
  have off: "\<not> telemetryEnabled telemetry_off"
    by (simp add: telemetry_off_def)
  have first: "initFromConfig telemetry_on fresh_globals
     = (Some \<lparr>sdk_serial = 0, sdk_metrics_url = ''http://localhost:4318/v1/metrics'',
              sdk_export_interval = 60000, sdk_service_name = ''nestjs-rr7'',
              sdk_service_version = ''0.0.0'',
              sdk_traces_url = ''http://localhost:4318/v1/traces''\<rparr>,
        \<lparr>otel_sdk = Some \<lparr>sdk_serial = 0, sdk_metrics_url = ''http://localhost:4318/v1/metrics'',
              sdk_export_interval = 60000, sdk_service_name = ''nestjs-rr7'',
              sdk_service_version = ''0.0.0'',
              sdk_traces_url = ''http://localhost:4318/v1/traces''\<rparr>,
          sdk_constructed = 1,
          logged = [''Telemetry initialized; exporting to http://localhost:4318 (service=nestjs-rr7@0.0.0)'']\<rparr>)"
    by (simp add: initFromConfig_def Let_def telemetry_on_def fresh_globals_def)
  have fresh: "otel_sdk fresh_globals = None \<and> sdk_constructed fresh_globals = 0"
    by (simp add: fresh_globals_def)
  show ?thesis
    using on off fresh
      initFromConfig_idempotent
        [where cfg = telemetry_on and cfg' = telemetry_on_other and g = fresh_globals]
      initFromConfig_idempotent
        [where cfg = telemetry_off and g = fresh_globals]
      initFromConfig_idempotent
        [where cfg = telemetry_off and g = "snd (initFromConfig telemetry_on fresh_globals)"]
    by (simp add: first)
qed

end
